theory Spec2Isabelle
  imports Complex_Main "HOL-Library.Word"
begin

section \<open>Python values used by web_app.py\<close>

text \<open>
  A Python \<open>str\<close> is a sequence of Unicode code points, so slicing and \<open>len\<close> count
  code points. It is modelled as a list of code-point numbers; \<open>lit\<close> embeds the ASCII
  literals of the source.
\<close>

type_synonym pystr = "nat list"

definition lit :: "string \<Rightarrow> pystr" where
  "lit s = map of_char s"

type_synonym bytes = "8 word list"

text \<open>The exception classes that the script and the library calls it makes can raise.\<close>

datatype pyerr =
    ValueError
  | KeyError
  | IndexError
  | TypeError
  | ZeroDivisionError
  | FileNotFoundError
  | FPDFException
  | FPDFUnicodeEncodingException
  | LibraryError string

text \<open>
  \<open>seq[i]\<close> and \<open>Series.iloc[i]\<close>: a negative position counts from the end, a position
  outside the sequence raises \<open>IndexError\<close>.
\<close>

definition py_index :: "'a list \<Rightarrow> int \<Rightarrow> pyerr + 'a" where
  "py_index xs i =
     (if 0 \<le> i \<and> i < int (length xs) then Inr (xs ! nat i)
      else if i < 0 \<and> - int (length xs) \<le> i then Inr (xs ! nat (int (length xs) + i))
      else Inl IndexError)"

text \<open>\<open>seq[:k]\<close>: never raises; the stop position is clamped to the sequence.\<close>

definition py_slice_to :: "'a list \<Rightarrow> int \<Rightarrow> 'a list" where
  "py_slice_to xs k =
     (let n = int (length xs); stop = (if k < 0 then max 0 (n + k) else min k n)
      in take (nat stop) xs)"

section \<open>NumPy float64 scalars\<close>

text \<open>
  \<open>pd.to_numeric\<close> yields a numeric Series, so \<open>revenue_data.iloc[i]\<close> is a NumPy
  scalar. A float64 is a finite value, a negative zero, an infinity or NaN; \<open>Fin 0\<close> is
  the positive zero. The arithmetic follows IEEE 754 as NumPy applies it to scalars: no
  operation raises (division by zero only emits a \<open>RuntimeWarning\<close>), the special values
  are decided first, and an exact non-zero result is rounded by \<open>rnd\<close>, the
  round-to-nearest of the format, which is a parameter of the model.
\<close>

datatype fl = Fin real | NegZero | PInf | NInf | NaN

fun val :: "fl \<Rightarrow> real" where
  "val (Fin r) = r"
| "val NegZero = 0"
| "val PInf = 0"
| "val NInf = 0"
| "val NaN = 0"

fun is_finite :: "fl \<Rightarrow> bool" where
  "is_finite (Fin r) = True"
| "is_finite NegZero = True"
| "is_finite PInf = False"
| "is_finite NInf = False"
| "is_finite NaN = False"

fun is_inf :: "fl \<Rightarrow> bool" where
  "is_inf PInf = True"
| "is_inf NInf = True"
| "is_inf (Fin r) = False"
| "is_inf NegZero = False"
| "is_inf NaN = False"

fun is_zero :: "fl \<Rightarrow> bool" where
  "is_zero (Fin r) = (r = 0)"
| "is_zero NegZero = True"
| "is_zero PInf = False"
| "is_zero NInf = False"
| "is_zero NaN = False"

fun sign_bit :: "fl \<Rightarrow> bool" where
  "sign_bit (Fin r) = (r < 0)"
| "sign_bit NegZero = True"
| "sign_bit NInf = True"
| "sign_bit PInf = False"
| "sign_bit NaN = False"

definition zero_sg :: "bool \<Rightarrow> fl" where
  "zero_sg neg = (if neg then NegZero else Fin 0)"

definition inf_sg :: "bool \<Rightarrow> fl" where
  "inf_sg neg = (if neg then NInf else PInf)"

definition fl_sub :: "(real \<Rightarrow> fl) \<Rightarrow> fl \<Rightarrow> fl \<Rightarrow> fl" where
  "fl_sub rnd x y =
     (if x = NaN \<or> y = NaN then NaN
      else if is_inf x then (if y = x then NaN else x)
      else if is_inf y then inf_sg (\<not> sign_bit y)
      else if val x - val y = 0 then (if x = NegZero \<and> y = Fin 0 then NegZero else Fin 0)
      else rnd (val x - val y))"

definition fl_div :: "(real \<Rightarrow> fl) \<Rightarrow> fl \<Rightarrow> fl \<Rightarrow> fl" where
  "fl_div rnd x y =
     (if x = NaN \<or> y = NaN then NaN
      else if is_inf x then (if is_inf y then NaN else inf_sg (sign_bit x \<noteq> sign_bit y))
      else if is_inf y then zero_sg (sign_bit x \<noteq> sign_bit y)
      else if is_zero y then (if is_zero x then NaN else inf_sg (sign_bit x \<noteq> sign_bit y))
      else if is_zero x then zero_sg (sign_bit x \<noteq> sign_bit y)
      else rnd (val x / val y))"

definition fl_mul :: "(real \<Rightarrow> fl) \<Rightarrow> fl \<Rightarrow> fl \<Rightarrow> fl" where
  "fl_mul rnd x y =
     (if x = NaN \<or> y = NaN then NaN
      else if is_inf x \<or> is_inf y then
        (if is_zero x \<or> is_zero y then NaN else inf_sg (sign_bit x \<noteq> sign_bit y))
      else if is_zero x \<or> is_zero y then zero_sg (sign_bit x \<noteq> sign_bit y)
      else rnd (val x * val y))"


section \<open>The format specifications \<open>,.0f\<close> and \<open>.2f\<close>\<close>

text \<open>
  Fixed-point formatting rounds the exact value of the float to the requested number
  of decimals, ties to even; the sign comes from the sign bit; NaN and the infinities
  print as words. The option \<open>,\<close> groups the integer digits in threes.
\<close>

definition round_half_even :: "real \<Rightarrow> int" where
  "round_half_even x =
     (let f = \<lfloor>x\<rfloor>; d = x - of_int f
      in if d < 1 / 2 then f else if 1 / 2 < d then f + 1 else if even f then f else f + 1)"

definition digit_char :: "nat \<Rightarrow> char" where
  "digit_char d = ''0123456789'' ! d"

fun digits :: "nat \<Rightarrow> string" where
  "digits n = (if n < 10 then [digit_char n] else digits (n div 10) @ [digit_char (n mod 10)])"

fun group3 :: "string \<Rightarrow> string" where
  "group3 ds =
     (if length ds \<le> 3 then ds
      else group3 (take (length ds - 3) ds) @ '','' @ drop (length ds - 3) ds)"

definition pad_zeros :: "nat \<Rightarrow> string \<Rightarrow> string" where
  "pad_zeros w ds = replicate (w - length ds) (CHR ''0'') @ ds"

definition fixed_point :: "bool \<Rightarrow> nat \<Rightarrow> real \<Rightarrow> string" where
  "fixed_point grouping prec a =
     (let n = nat (round_half_even (a * 10 ^ prec));
          int_digits = digits (n div 10 ^ prec);
          int_part = (if grouping then group3 int_digits else int_digits)
      in if prec = 0 then int_part
         else int_part @ ''.'' @ pad_zeros prec (digits (n mod 10 ^ prec)))"

definition format_f :: "bool \<Rightarrow> nat \<Rightarrow> fl \<Rightarrow> string" where
  "format_f grouping prec x =
     (case x of
        NaN \<Rightarrow> ''nan''
      | PInf \<Rightarrow> ''inf''
      | NInf \<Rightarrow> ''-inf''
      | NegZero \<Rightarrow> ''-'' @ fixed_point grouping prec 0
      | Fin r \<Rightarrow> (if r < 0 then ''-'' else '''') @ fixed_point grouping prec \<bar>r\<bar>)"

section \<open>The prompt of generate_summary\<close>

text \<open>
  The f-string of \<open>generate_summary\<close>, piece by piece: the fixed text between the
  replacement fields, and the four fields \<open>{latest_revenue:,.0f}\<close>,
  \<open>{previous_revenue:,.0f}\<close>, \<open>{revenue_growth:.2f}\<close> and \<open>{text_from_pdf[:4000]}\<close>.
\<close>

definition dquote :: pystr where
  "dquote = [34]"

definition prompt_intro :: pystr where
  "prompt_intro = lit ''\<newline>You are a professional financial analyst for SICOM.\<newline>The latest quarterly revenue is ''"

definition prompt_last_year :: pystr where
  "prompt_last_year = lit ''.\<newline>The revenue for the same quarter last year was ''"

definition prompt_represents :: pystr where
  "prompt_represents = lit ''.\<newline>This represents a ''"

definition prompt_alert :: pystr where
  "prompt_alert =
     lit ''% change.\<newline>\<newline>The quarterly data also shows a significant negative revenue of -1,388.1M in Q3 2016.\<newline>Flag this in your analysis as a ''
     @ dquote @ lit ''Data Integrity Alert'' @ dquote
     @ lit '' and advise that it appears to be a data-entry error in the source file.\<newline>''"

definition prompt_task :: pystr where
  "prompt_task = lit ''\<newline>Analyze the following text from the financial report and provide a brief summary\<newline>of key performance indicators, risks, and outlook.\<newline>\<newline>Text:\<newline>''"

definition revenue_growth :: "(real \<Rightarrow> fl) \<Rightarrow> fl \<Rightarrow> fl \<Rightarrow> fl" where
  "revenue_growth rnd latest_revenue previous_revenue =
     fl_mul rnd (fl_div rnd (fl_sub rnd latest_revenue previous_revenue) previous_revenue) (Fin 100)"

definition prompt_text :: "fl \<Rightarrow> fl \<Rightarrow> fl \<Rightarrow> pystr \<Rightarrow> pystr" where
  "prompt_text latest_revenue previous_revenue growth text_from_pdf =
     prompt_intro @ lit (format_f True 0 latest_revenue)
     @ prompt_last_year @ lit (format_f True 0 previous_revenue)
     @ prompt_represents @ lit (format_f False 2 growth)
     @ prompt_alert @ prompt_task
     @ py_slice_to text_from_pdf 4000 @ lit ''\<newline>''"

section \<open>The outside world\<close>

text \<open>
  The request of \<open>client.chat.completions.create\<close> and the part of its response the
  script reads: the message content of each choice.
\<close>

record chat_request =
  req_model :: string
  req_messages :: "(string \<times> pystr) list"
  req_temperature :: real

record chat_response =
  choices :: "pystr list"

text \<open>A spreadsheet cell as openpyxl hands it to pandas.\<close>

datatype cell = Blank | Num fl | Str pystr

type_synonym sheet = "cell list list"

type_synonym workbook = "(pystr \<times> sheet) list"

text \<open>A column label after pandas has made the header names unique.\<close>

type_synonym collabel = "cell \<times> nat"

type_synonym series = "(collabel \<times> fl) list"

text \<open>
  The document under construction by \<open>FPDF\<close>: the fonts added, the pages, the font
  selected, and what has been drawn.
\<close>

datatype pdf_item = Cell_Text pystr | Multi_Cell_Text pystr | Line_Break nat | Image bytes

record fpdf =
  added_fonts :: "(string \<times> string) list"
  page_count :: nat
  current_font :: "(string \<times> string \<times> nat) option"
  drawn :: "pdf_item list"

text \<open>
  What the script cannot decide by itself is a parameter: the rounding of float64, the
  parsing of a numeric string by pandas, the OpenAI client and service, matplotlib's
  rendering, PyMuPDF's text extraction, the files beside the script, and the
  serialisation of the document by fpdf2.
\<close>

record env =
  float_rnd :: "real \<Rightarrow> fl"
  parse_number :: "pystr \<Rightarrow> fl option"
  new_client :: "string \<Rightarrow> pyerr + string"
  savefig :: "series \<Rightarrow> pyerr + bytes"
  fitz_open :: "bytes \<Rightarrow> pyerr + pystr list"
  chat_create :: "string \<Rightarrow> chat_request \<Rightarrow> pyerr + chat_response"
  file_exists :: "string \<Rightarrow> bool"
  pdf_objects :: "fpdf \<Rightarrow> bytes"

section \<open>What a run shows and does\<close>

text \<open>
  A run is observed through the Streamlit calls it makes and the request it sends.
  The states of the pipeline are marked where the script begins the corresponding
  section.
\<close>

datatype step =
    Intake | Normalize | DeriveMetrics | RenderChart | ExtractText
  | GenerateNarrative | AssembleReport | Ready

datatype event =
    Step step
  | St_spinner string
  | St_write string
  | St_error string
  | St_error_occurred pyerr
  | St_exception pyerr
  | St_success string
  | St_balloons
  | St_download_button string bytes string string
  | Api_call chat_request

text \<open>
  A piece of the script either returns a value or raises; what it has shown up to
  then stays on the page.
\<close>

type_synonym 'a action = "(pyerr + 'a) \<times> event list"

definition say :: "event \<Rightarrow> unit action" where
  "say e = (Inr (), [e])"

definition lift :: "pyerr + 'a \<Rightarrow> 'a action" where
  "lift r = (r, [])"

definition andthen :: "'a action \<Rightarrow> ('a \<Rightarrow> 'b action) \<Rightarrow> 'b action" where
  "andthen m f =
     (case m of
        (Inl e, evs) \<Rightarrow> (Inl e, evs)
      | (Inr x, evs) \<Rightarrow> (case f x of (r, evs') \<Rightarrow> (r, evs @ evs')))"

section \<open>generate_summary\<close>

definition generate_summary :: "env \<Rightarrow> pystr \<Rightarrow> fl \<Rightarrow> fl \<Rightarrow> string \<Rightarrow> pystr action" where
  "generate_summary w text_from_pdf latest_revenue previous_revenue client =
     andthen (say (St_write ''Checkpoint A: Entered generate_summary function.'')) (\<lambda>_.
     let growth = revenue_growth (float_rnd w) latest_revenue previous_revenue;
         prompt = prompt_text latest_revenue previous_revenue growth text_from_pdf;
         request = \<lparr>req_model = ''gpt-4o'', req_messages = [(''user'', prompt)],
                     req_temperature = 0.5\<rparr>
     in
     andthen (say (St_write ''Checkpoint B: Connecting to OpenAI API...'')) (\<lambda>_.
     andthen (say (Api_call request)) (\<lambda>_.
     andthen (lift (chat_create w client request)) (\<lambda>response.
     andthen (say (St_write ''Checkpoint C: Received response from OpenAI API.'')) (\<lambda>_.
     lift (py_index (choices response) 0))))))"

section \<open>The pandas calls\<close>

text \<open>
  A data frame: the column labels and, for every row, its index label and its cells.
  pandas makes repeated header names unique when it reads a sheet; a label is modelled
  as the header cell with the number of earlier occurrences of the same cell.
\<close>

record dataframe =
  df_columns :: "collabel list"
  df_rows :: "(cell \<times> cell list) list"

fun dedup_names :: "cell list \<Rightarrow> cell list \<Rightarrow> collabel list" where
  "dedup_names seen [] = []"
| "dedup_names seen (c # cs) = (c, count_list seen c) # dedup_names (seen @ [c]) cs"

definition split_index :: "cell list \<Rightarrow> cell \<times> cell list" where
  "split_index r = (case r of [] \<Rightarrow> (Blank, []) | c # cs \<Rightarrow> (c, cs))"

text \<open>
  \<open>pd.read_excel(excel_file, sheet_name=..., header=..., index_col=0)\<close>: a missing sheet
  raises \<open>ValueError\<close>; an empty sheet gives an empty frame; otherwise the row at the
  header offset names the columns, the rows after it are the data, and the first column
  is the index.
\<close>

definition read_excel :: "workbook \<Rightarrow> pystr \<Rightarrow> nat \<Rightarrow> pyerr + dataframe" where
  "read_excel wb sheet_name header =
     (case map_of wb sheet_name of
        None \<Rightarrow> Inl ValueError
      | Some grid \<Rightarrow>
          if grid = [] then Inr \<lparr>df_columns = [], df_rows = []\<rparr>
          else if length grid \<le> header then Inl ValueError
          else Inr \<lparr>df_columns = dedup_names [] (snd (split_index (grid ! header))),
                    df_rows = map split_index (drop (Suc header) grid)\<rparr>)"

text \<open>\<open>df.columns[0]\<close>\<close>

definition first_column :: "dataframe \<Rightarrow> pyerr + collabel" where
  "first_column df = py_index (df_columns df) 0"

text \<open>\<open>df.drop(label, axis=1)\<close>: every column with that label goes; none raises \<open>KeyError\<close>.\<close>

definition drop_column :: "dataframe \<Rightarrow> collabel \<Rightarrow> pyerr + dataframe" where
  "drop_column df label =
     (if label \<in> set (df_columns df) then
        Inr \<lparr>df_columns = filter (\<lambda>c. c \<noteq> label) (df_columns df),
             df_rows = map (\<lambda>(i, cells).
               (i, map snd (filter (\<lambda>(c, v). c \<noteq> label) (zip (df_columns df) cells))))
               (df_rows df)\<rparr>
      else Inl KeyError)"

text \<open>\<open>df.drop(label)\<close>: every row with that index label goes; none raises \<open>KeyError\<close>.\<close>

definition drop_row :: "dataframe \<Rightarrow> cell \<Rightarrow> pyerr + dataframe" where
  "drop_row df label =
     (if label \<in> set (map fst (df_rows df)) then
        Inr (df\<lparr>df_rows := filter (\<lambda>r. fst r \<noteq> label) (df_rows df)\<rparr>)
      else Inl KeyError)"

text \<open>
  \<open>df.loc[label]\<close>: no such row raises \<open>KeyError\<close>; one row is returned as a Series
  over the columns; several rows are returned as a frame.
\<close>

datatype selection = Row_Series "(collabel \<times> cell) list" | Sub_Frame "(cell \<times> cell list) list"

definition loc :: "dataframe \<Rightarrow> cell \<Rightarrow> pyerr + selection" where
  "loc df label =
     (case filter (\<lambda>r. fst r = label) (df_rows df) of
        [] \<Rightarrow> Inl KeyError
      | [r] \<Rightarrow> Inr (Row_Series (zip (df_columns df) (snd r)))
      | rs \<Rightarrow> Inr (Sub_Frame rs))"

text \<open>
  \<open>pd.to_numeric(arg, errors='coerce')\<close>: a number stays, an empty cell is NaN, a string
  is parsed and becomes NaN when it is not a number; a frame is refused with \<open>TypeError\<close>.
\<close>

definition coerce :: "env \<Rightarrow> cell \<Rightarrow> fl" where
  "coerce w c =
     (case c of
        Num v \<Rightarrow> v
      | Blank \<Rightarrow> NaN
      | Str s \<Rightarrow> (case parse_number w s of Some v \<Rightarrow> v | None \<Rightarrow> NaN))"

definition to_numeric :: "env \<Rightarrow> selection \<Rightarrow> pyerr + series" where
  "to_numeric w arg =
     (case arg of
        Row_Series cells \<Rightarrow> Inr (map (\<lambda>(label, c). (label, coerce w c)) cells)
      | Sub_Frame rs \<Rightarrow> Inl TypeError)"

text \<open>\<open>revenue_data.iloc[i]\<close>\<close>

definition iloc :: "series \<Rightarrow> int \<Rightarrow> pyerr + fl" where
  "iloc revenue_data i = py_index (map snd revenue_data) i"

section \<open>The fpdf2 calls\<close>

definition new_fpdf :: fpdf where
  "new_fpdf = \<lparr>added_fonts = [], page_count = 0, current_font = None, drawn = []\<rparr>"

text \<open>\<open>pdf.add_font(family, style, fname, uni=True)\<close> raises \<open>FileNotFoundError\<close> when the file is missing.\<close>

definition add_font :: "env \<Rightarrow> fpdf \<Rightarrow> string \<Rightarrow> string \<Rightarrow> string \<Rightarrow> pyerr + fpdf" where
  "add_font w pdf family style fname =
     (if file_exists w fname then Inr (pdf\<lparr>added_fonts := added_fonts pdf @ [(family, style)]\<rparr>)
      else Inl FileNotFoundError)"

definition add_page :: "fpdf \<Rightarrow> fpdf" where
  "add_page pdf = pdf\<lparr>page_count := Suc (page_count pdf)\<rparr>"

text \<open>The built-in families need no file; \<open>Arial\<close> is an alias of Helvetica.\<close>

definition core_family :: "string \<Rightarrow> bool" where
  "core_family family =
     (family \<in> set [''Arial'', ''Helvetica'', ''Times'', ''Courier'', ''Symbol'', ''ZapfDingbats''])"

definition set_font :: "fpdf \<Rightarrow> string \<Rightarrow> string \<Rightarrow> nat \<Rightarrow> pyerr + fpdf" where
  "set_font pdf family style pt =
     (if (family, style) \<in> set (added_fonts pdf) \<or> core_family family
      then Inr (pdf\<lparr>current_font := Some (family, style, pt)\<rparr>)
      else Inl FPDFException)"

text \<open>
  Text drawn in a built-in font is encoded in Latin-1, and a character outside it
  raises \<open>FPDFUnicodeEncodingException\<close>; an added TrueType font takes any text.
\<close>

definition unicode_font :: "fpdf \<Rightarrow> bool" where
  "unicode_font pdf =
     (case current_font pdf of
        None \<Rightarrow> False
      | Some (family, style, pt) \<Rightarrow> (family, style) \<in> set (added_fonts pdf))"

definition latin1 :: "pystr \<Rightarrow> bool" where
  "latin1 txt = list_all (\<lambda>c. c < 256) txt"

definition draw_text :: "fpdf \<Rightarrow> pystr \<Rightarrow> pdf_item \<Rightarrow> pyerr + fpdf" where
  "draw_text pdf txt item =
     (if current_font pdf = None \<or> page_count pdf = 0 then Inl FPDFException
      else if \<not> unicode_font pdf \<and> \<not> latin1 txt then Inl FPDFUnicodeEncodingException
      else Inr (pdf\<lparr>drawn := drawn pdf @ [item]\<rparr>))"

definition pdf_cell :: "fpdf \<Rightarrow> pystr \<Rightarrow> pyerr + fpdf" where
  "pdf_cell pdf txt = draw_text pdf txt (Cell_Text txt)"

definition multi_cell :: "fpdf \<Rightarrow> pystr \<Rightarrow> pyerr + fpdf" where
  "multi_cell pdf txt = draw_text pdf txt (Multi_Cell_Text txt)"

definition pdf_ln :: "fpdf \<Rightarrow> nat \<Rightarrow> fpdf" where
  "pdf_ln pdf h = pdf\<lparr>drawn := drawn pdf @ [Line_Break h]\<rparr>"

text \<open>\<open>pdf.image(img_buffer, ...)\<close> of the PNG that \<open>savefig\<close> wrote.\<close>

definition pdf_image :: "fpdf \<Rightarrow> bytes \<Rightarrow> fpdf" where
  "pdf_image pdf img_buffer = pdf\<lparr>drawn := drawn pdf @ [Image img_buffer]\<rparr>"

text \<open>\<open>bytes(pdf.output())\<close>: the file header \<open>%PDF-\<close>, then the serialised document.\<close>

definition pdf_header :: bytes where
  "pdf_header = [37, 80, 68, 70, 45]"

definition pdf_output :: "env \<Rightarrow> fpdf \<Rightarrow> bytes" where
  "pdf_output w pdf = pdf_header @ pdf_objects w pdf"

section \<open>The sections of the button handler\<close>

text \<open>Section 3 of the script, "Process the Excel File" (lines 76 to 88).\<close>

definition process_excel :: "env \<Rightarrow> workbook \<Rightarrow> series action" where
  "process_excel w excel_file =
     andthen (say (Step Normalize)) (\<lambda>_.
     andthen (say (St_write ''Checkpoint 5: Loading and cleaning Excel file.'')) (\<lambda>_.
     andthen (lift (read_excel excel_file (lit ''Income Statement'') 3)) (\<lambda>df0.
     andthen (lift (first_column df0)) (\<lambda>c0.
     andthen (lift (drop_column df0 c0)) (\<lambda>df1.
     andthen (lift (drop_row df1 (Str (lit ''3 Months Ending'')))) (\<lambda>df2.
     andthen (say (St_write ''Checkpoint 5.2: Excel sheet cleaned successfully.'')) (\<lambda>_.
     andthen (lift (loc df2 (Str (lit ''Net Revenue'')))) (\<lambda>row.
     andthen (lift (to_numeric w row)) (\<lambda>revenue_data.
     andthen (say (St_write ''Checkpoint 5.5: Revenue data prepared.'')) (\<lambda>_.
     lift (Inr revenue_data)))))))))))"

text \<open>Section 4, "Create the Chart" (lines 90 to 103).\<close>

definition create_chart :: "env \<Rightarrow> series \<Rightarrow> bytes action" where
  "create_chart w revenue_data =
     andthen (say (Step RenderChart)) (\<lambda>_.
     andthen (say (St_write ''Checkpoint 6: Generating chart.'')) (\<lambda>_.
     andthen (lift (savefig w revenue_data)) (\<lambda>img_buffer.
     andthen (say (St_write ''Checkpoint 6.1: Chart saved to memory.'')) (\<lambda>_.
     lift (Inr img_buffer)))))"

text \<open>
  Section 5, "Process the PDF File" (lines 105 to 112); the loop appends the text of
  every page to \<open>text_content\<close>.
\<close>

definition process_pdf :: "env \<Rightarrow> bytes \<Rightarrow> pystr action" where
  "process_pdf w pdf_file =
     andthen (say (Step ExtractText)) (\<lambda>_.
     andthen (say (St_write ''Checkpoint 7: Extracting text from PDF.'')) (\<lambda>_.
     andthen (lift (fitz_open w pdf_file)) (\<lambda>doc.
     let text_content = foldl (\<lambda>text_content page_text. text_content @ page_text) [] doc in
     andthen (say (St_write ''Checkpoint 7.1: PDF text extracted.'')) (\<lambda>_.
     lift (Inr text_content)))))"

text \<open>Section 6, "Run AI Analysis" (lines 114 to 117).\<close>

definition run_ai_analysis :: "env \<Rightarrow> series \<Rightarrow> pystr \<Rightarrow> string \<Rightarrow> pystr action" where
  "run_ai_analysis w revenue_data text_content client =
     andthen (say (Step DeriveMetrics)) (\<lambda>_.
     andthen (lift (iloc revenue_data (- 1))) (\<lambda>latest_rev.
     andthen (lift (iloc revenue_data (- 5))) (\<lambda>previous_rev.
     andthen (say (Step GenerateNarrative)) (\<lambda>_.
     generate_summary w text_content latest_rev previous_rev client))))"

text \<open>
  The \<open>try\<close> of lines 125 to 132: a \<open>FileNotFoundError\<close> of either \<open>add_font\<close> is
  caught, the warning is shown and the family is \<open>Arial\<close>; any other error is not
  caught here.
\<close>

definition font_warning :: string where
  "font_warning = ''Font files (DejaVuSans.ttf, DejaVuSans-Bold.ttf) not found. Falling back to Arial, which may cause errors with special characters.''"

definition font_fallback :: "pyerr \<Rightarrow> fpdf \<Rightarrow> (fpdf \<times> string) action" where
  "font_fallback e pdf =
     (if e = FileNotFoundError then (Inr (pdf, ''Arial''), [St_error font_warning])
      else (Inl e, []))"

definition choose_font :: "env \<Rightarrow> fpdf \<Rightarrow> (fpdf \<times> string) action" where
  "choose_font w pdf =
     (case add_font w pdf ''DejaVu'' [] ''DejaVuSans.ttf'' of
        Inl e \<Rightarrow> font_fallback e pdf
      | Inr pdf1 \<Rightarrow>
          (case add_font w pdf1 ''DejaVu'' ''B'' ''DejaVuSans-Bold.ttf'' of
             Inl e \<Rightarrow> font_fallback e pdf1
           | Inr pdf2 \<Rightarrow> (Inr (pdf2, ''DejaVu''), [])))"

text \<open>Section 7, "Generate the PDF Report" (lines 119 to 149).\<close>

definition generate_pdf_report :: "env \<Rightarrow> pystr \<Rightarrow> bytes \<Rightarrow> fpdf action" where
  "generate_pdf_report w summary img_buffer =
     andthen (say (Step AssembleReport)) (\<lambda>_.
     andthen (say (St_write ''Checkpoint 8: Generating PDF report...'')) (\<lambda>_.
     andthen (choose_font w new_fpdf) (\<lambda>(pdf0, font_family).
     andthen (lift (set_font (add_page pdf0) font_family ''B'' 16)) (\<lambda>pdf1.
     andthen (lift (pdf_cell pdf1 (lit ''SICOM Financial Analysis''))) (\<lambda>pdf2.
     andthen (lift (set_font pdf2 font_family [] 11)) (\<lambda>pdf3.
     andthen (lift (multi_cell pdf3 summary)) (\<lambda>pdf4.
     let pdf5 = pdf_image (pdf_ln pdf4 10) img_buffer in
     andthen (say (St_write ''Checkpoint 9: PDF report finished.'')) (\<lambda>_.
     lift (Inr pdf5)))))))))"

text \<open>Section 8, "Show Success and Download Button" (lines 151 to 160).\<close>

definition show_download :: "env \<Rightarrow> fpdf \<Rightarrow> unit action" where
  "show_download w pdf =
     andthen (say (Step Ready)) (\<lambda>_.
     andthen (say (St_success ''--- Report finished successfully! ---'')) (\<lambda>_.
     andthen (say St_balloons) (\<lambda>_.
     say (St_download_button ''Download SICOM_Report.pdf'' (pdf_output w pdf)
            ''SICOM_Report.pdf'' ''application/pdf''))))"

text \<open>The body of the \<open>try\<close> (lines 70 to 160).\<close>

definition pipeline :: "env \<Rightarrow> string \<Rightarrow> workbook \<Rightarrow> bytes \<Rightarrow> unit action" where
  "pipeline w api_key excel_file pdf_file =
     andthen (lift (new_client w api_key)) (\<lambda>client.
     andthen (say (St_write ''Checkpoint 4: OpenAI client initialized successfully.'')) (\<lambda>_.
     andthen (process_excel w excel_file) (\<lambda>revenue_data.
     andthen (create_chart w revenue_data) (\<lambda>img_buffer.
     andthen (process_pdf w pdf_file) (\<lambda>text_content.
     andthen (run_ai_analysis w revenue_data text_content client) (\<lambda>summary.
     andthen (generate_pdf_report w summary img_buffer) (\<lambda>pdf.
     show_download w pdf)))))))"

text \<open>
  What happens when "Generate Full Report" is pressed (lines 63 to 167): the check
  that both files are uploaded, then the pipeline under the handler that shows any
  exception, or else the message that a file is missing.
\<close>

definition missing_files_message :: string where
  "missing_files_message = ''Please make sure both files are uploaded before generating the report.''"

definition generate_report ::
  "env \<Rightarrow> string \<Rightarrow> workbook option \<Rightarrow> bytes option \<Rightarrow> event list" where
  "generate_report w api_key excel_file pdf_file =
     Step Intake #
     (case (excel_file, pdf_file) of
        (Some xlsx, Some pdf) \<Rightarrow>
          St_spinner ''Generating report... This may take a moment.'' #
          (case pipeline w api_key xlsx pdf of
             (Inr u, evs) \<Rightarrow> evs
           | (Inl e, evs) \<Rightarrow> evs @ [St_error_occurred e, St_exception e])
      | _ \<Rightarrow> [St_error missing_files_message])"

text \<open>Reading a run: the states it went through, what it displayed, what it sent.\<close>

fun steps :: "event list \<Rightarrow> step list" where
  "steps [] = []"
| "steps (Step s # evs) = s # steps evs"
| "steps (e # evs) = steps evs"

fun shown :: "event list \<Rightarrow> event list" where
  "shown [] = []"
| "shown (Step s # evs) = shown evs"
| "shown (Api_call r # evs) = shown evs"
| "shown (e # evs) = e # shown evs"

fun requests :: "event list \<Rightarrow> chat_request list" where
  "requests [] = []"
| "requests (Api_call r # evs) = r # requests evs"
| "requests (e # evs) = requests evs"

fun downloads :: "event list \<Rightarrow> bytes list" where
  "downloads [] = []"
| "downloads (St_download_button label data file_name mime # evs) = data # downloads evs"
| "downloads (e # evs) = downloads evs"

fun failures :: "event list \<Rightarrow> pyerr list" where
  "failures [] = []"
| "failures (St_exception e # evs) = e # failures evs"
| "failures (ev # evs) = failures evs"

section \<open>Sample inputs\<close>

text \<open>
  An income statement in the expected layout: three title rows, the header row, the
  row "3 Months Ending", the row "Net Revenue" and one more line item; the first data
  column holds notes.
\<close>

definition statement :: "cell list \<Rightarrow> cell list \<Rightarrow> workbook" where
  "statement periods revenue =
     [(lit ''Income Statement'',
       [Str (lit ''CIM Financial Services'') # Blank # map (\<lambda>p. Blank) periods,
        Blank # Blank # map (\<lambda>p. Blank) periods,
        Blank # Blank # map (\<lambda>p. Blank) periods,
        Str (lit ''Line item'') # Str (lit ''Note'') # periods,
        Str (lit ''3 Months Ending'') # Blank # map (\<lambda>p. Blank) periods,
        Str (lit ''Net Revenue'') # Str (lit ''MUR 000'') # revenue,
        Str (lit ''Operating costs'') # Blank # map (\<lambda>p. Num (Fin 1)) periods])]"

definition six_quarters :: "cell list" where
  "six_quarters =
     [Str (lit ''Q1 2016''), Str (lit ''Q2 2016''), Str (lit ''Q3 2016''),
      Str (lit ''Q4 2016''), Str (lit ''Q1 2017''), Str (lit ''Q2 2017'')]"

definition four_quarters :: "cell list" where
  "four_quarters =
     [Str (lit ''Q1 2016''), Str (lit ''Q2 2016''), Str (lit ''Q3 2016''), Str (lit ''Q4 2016'')]"

definition growing_book :: workbook where
  "growing_book =
     statement six_quarters
       [Num (Fin 900000), Num (Fin 1000000), Num (Fin 1100000),
        Num (Fin 1150000), Num (Fin 1200000), Num (Fin 1250000)]"

definition zero_book :: workbook where
  "zero_book =
     statement six_quarters
       [Num (Fin 900000), Num (Fin 0), Num (Fin 1100000),
        Num (Fin 1150000), Num (Fin 1200000), Num (Fin 1250000)]"

definition short_book :: workbook where
  "short_book =
     statement four_quarters
       [Num (Fin 900000), Num (Fin 1000000), Num (Fin 1100000), Num (Fin 1150000)]"

definition gap_book :: workbook where
  "gap_book =
     statement six_quarters
       [Num (Fin 900000), Str (lit ''n/a''), Num (Fin 1100000),
        Num (Fin 1150000), Num (Fin 1200000), Num (Fin 1250000)]"

definition sample_pdf :: bytes where
  "sample_pdf = [37, 80, 68, 70, 45, 49, 46, 55]"

definition sample_png :: bytes where
  "sample_png = [137, 80, 78, 71]"

text \<open>
  A world in which every library call succeeds: exact rounding, no numeric strings,
  a two-page document, a service that answers with one choice, both font files
  present.
\<close>

definition calm_world :: env where
  "calm_world =
     \<lparr>float_rnd = Fin,
      parse_number = (\<lambda>s. None),
      new_client = (\<lambda>api_key. Inr api_key),
      savefig = (\<lambda>revenue_data. Inr sample_png),
      fitz_open = (\<lambda>stream. Inr [lit ''Annual report. '', lit ''Outlook stable.'']),
      chat_create = (\<lambda>client request. Inr \<lparr>choices = [lit ''Revenue grew.'']\<rparr>),
      file_exists = (\<lambda>fname. True),
      pdf_objects = (\<lambda>pdf. [])\<rparr>"

text \<open>The same world without the font files.\<close>

definition fontless_world :: env where
  "fontless_world = calm_world\<lparr>file_exists := (\<lambda>fname. False)\<rparr>"

text \<open>
  The same world without the font files, where the service answers with a
  typographic apostrophe (U+2019).
\<close>

definition curly_world :: env where
  "curly_world =
     fontless_world\<lparr>chat_create :=
       (\<lambda>client request. Inr \<lparr>choices = [lit ''Revenue'' @ [8217] @ lit ''s up.'']\<rparr>)\<rparr>"

text \<open>What section 3 of the script writes on the page when nothing fails.\<close>

definition excel_checkpoints :: "event list" where
  "excel_checkpoints =
     [Step Normalize,
      St_write ''Checkpoint 5: Loading and cleaning Excel file.'',
      St_write ''Checkpoint 5.2: Excel sheet cleaned successfully.'',
      St_write ''Checkpoint 5.5: Revenue data prepared.'']"

text \<open>The revenue series that section 3 of the script prepares from a workbook.\<close>

definition revenue_of :: "env \<Rightarrow> workbook \<Rightarrow> series" where
  "revenue_of w excel_file =
     (case fst (process_excel w excel_file) of Inr revenue_data \<Rightarrow> revenue_data | Inl e \<Rightarrow> [])"

section \<open>Sequencing\<close>

lemma andthen_say: "andthen (say e) f = (fst (f ()), e # snd (f ()))"
  by (simp add: andthen_def say_def split: prod.splits)

lemma andthen_lift_Inr: "andthen (lift (Inr x)) f = f x"
  by (simp add: andthen_def lift_def split: prod.splits)

lemma andthen_lift_Inl: "andthen (lift (Inl e)) f = (Inl e, [])"
  by (simp add: andthen_def lift_def)

lemma andthen_Inr: "andthen (Inr x, evs) f = (fst (f x), evs @ snd (f x))"
  by (simp add: andthen_def split: prod.splits)

lemma andthen_Inl: "andthen (Inl e, evs) f = (Inl e, evs)"
  by (simp add: andthen_def)

lemma andthen_lift: "andthen (lift r) f = (case r of Inl e \<Rightarrow> (Inl e, []) | Inr x \<Rightarrow> f x)"
  by (simp add: andthen_def lift_def split: sum.splits prod.splits)

lemma fst_lift: "fst (lift r) = r"
  by (simp add: lift_def)

lemma snd_lift: "snd (lift r) = []"
  by (simp add: lift_def)

lemmas act = andthen_say andthen_lift_Inr andthen_lift_Inl andthen_Inr andthen_Inl

section \<open>The truncation of the document text\<close>

lemma slice_4000:
  "py_slice_to text 4000 = (if length text \<le> 4000 then text else take 4000 text)"
  by (simp add: py_slice_to_def Let_def min_def)


text \<open>
  C10. The slice \<open>text_from_pdf[:4000]\<close> is defined for every string, the empty one
  included: it is the whole string when that has at most 4000 characters and its first
  4000 characters otherwise, and the prompt embeds exactly this slice between text
  that does not depend on the document.
\<close>

theorem truncation_total:
  "py_slice_to text 4000 = (if length text \<le> 4000 then text else take 4000 text)
   \<and> length (py_slice_to text 4000) = min (length text) 4000
   \<and> (\<exists>before after. \<forall>t. prompt_text latest previous growth t
          = before @ (if length t \<le> 4000 then t else take 4000 t) @ after)"
proof (intro conjI)
  show "py_slice_to text 4000 = (if length text \<le> 4000 then text else take 4000 text)"
    by (rule slice_4000)
  show "length (py_slice_to text 4000) = min (length text) 4000"
    by (simp add: slice_4000)
  have "\<forall>t. prompt_text latest previous growth t
          = (prompt_intro @ lit (format_f True 0 latest)
             @ prompt_last_year @ lit (format_f True 0 previous)
             @ prompt_represents @ lit (format_f False 2 growth)
             @ prompt_alert @ prompt_task)
            @ (if length t \<le> 4000 then t else take 4000 t) @ lit ''\<newline>''"
    by (simp add: prompt_text_def slice_4000)
  then show "\<exists>before after. \<forall>t. prompt_text latest previous growth t
          = before @ (if length t \<le> 4000 then t else take 4000 t) @ after"
    by blast
qed

section \<open>The check that both files are uploaded\<close>

text \<open>
  C5. When the spreadsheet, the PDF or both are missing as the button is pressed,
  the run consists of the check and the message that a file is missing: it shows
  nothing else, enters no later state of the pipeline, sends no request and offers
  no download.
\<close>

theorem missing_input:
  "excel_file = None \<or> pdf_file = None \<Longrightarrow>
     generate_report w api_key excel_file pdf_file = [Step Intake, St_error missing_files_message]
     \<and> shown (generate_report w api_key excel_file pdf_file) = [St_error missing_files_message]
     \<and> steps (generate_report w api_key excel_file pdf_file) = [Intake]
     \<and> requests (generate_report w api_key excel_file pdf_file) = []
     \<and> downloads (generate_report w api_key excel_file pdf_file) = []"
  by (auto simp: generate_report_def split: option.splits)

theorem missing_input_witness:
  "generate_report calm_world ''sk-test'' None (Some sample_pdf)
     = [Step Intake, St_error missing_files_message]
   \<and> steps (generate_report calm_world ''sk-test'' (Some growing_book) None) = [Intake]
   \<and> downloads (generate_report calm_world ''sk-test'' None None) = []"
proof -
  have a: "generate_report calm_world ''sk-test'' None (Some sample_pdf)
     = [Step Intake, St_error missing_files_message]"
    using missing_input [of None "Some sample_pdf" calm_world "''sk-test''"] by simp
  have b: "steps (generate_report calm_world ''sk-test'' (Some growing_book) None) = [Intake]"
    using missing_input [of "Some growing_book" None calm_world "''sk-test''"] by simp
  have c: "downloads (generate_report calm_world ''sk-test'' None None) = []"
    using missing_input [of None None calm_world "''sk-test''"] by simp
  show ?thesis using a b c by simp
qed

section \<open>generate_summary: the request and the result\<close>

lemma generate_summary_unfold:
  "generate_summary w text latest previous client =
     (let request = \<lparr>req_model = ''gpt-4o'',
                      req_messages = [(''user'', prompt_text latest previous
                         (revenue_growth (float_rnd w) latest previous) text)],
                      req_temperature = 1 / 2\<rparr>;
          before = [St_write ''Checkpoint A: Entered generate_summary function.'',
                    St_write ''Checkpoint B: Connecting to OpenAI API...'',
                    Api_call request]
      in case chat_create w client request of
           Inl e \<Rightarrow> (Inl e, before)
         | Inr response \<Rightarrow>
             (py_index (choices response) 0,
              before @ [St_write ''Checkpoint C: Received response from OpenAI API.'']))"
  by (simp add: generate_summary_def andthen_say andthen_lift fst_lift snd_lift Let_def
      split: sum.splits)


lemma generate_summary_requests:
  "requests (snd (generate_summary w text latest previous client)) =
     [\<lparr>req_model = ''gpt-4o'',
       req_messages = [(''user'', prompt_text latest previous
                          (revenue_growth (float_rnd w) latest previous) text)],
       req_temperature = 1 / 2\<rparr>]"
  by (simp add: generate_summary_unfold Let_def split: sum.splits)

lemma generate_summary_outcome:
  "fst (generate_summary w text latest previous client) =
     (case chat_create w client
             \<lparr>req_model = ''gpt-4o'',
              req_messages = [(''user'', prompt_text latest previous
                                 (revenue_growth (float_rnd w) latest previous) text)],
              req_temperature = 1 / 2\<rparr> of
        Inl e \<Rightarrow> Inl e
      | Inr response \<Rightarrow> py_index (choices response) 0)"
  by (simp add: generate_summary_unfold Let_def split: sum.splits)

lemma format_examples:
  "format_f True 0 (Fin 1250000) = ''1,250,000''"
  "format_f True 0 (Fin (- 1388.1)) = ''-1,388''"
  "format_f False 2 (Fin 25) = ''25.00''"
  "format_f False 2 (Fin (100 / 9)) = ''11.11''"
  by (simp_all add: format_f_def fixed_point_def round_half_even_def digit_char_def
      pad_zeros_def Let_def)

section \<open>The spreadsheet normalizer\<close>




















section \<open>Evaluating the sample inputs\<close>

lemmas pandas_eval = read_excel_def first_column_def drop_column_def drop_row_def loc_def
  to_numeric_def coerce_def py_index_def split_index_def statement_def lit_def
  six_quarters_def four_quarters_def

lemmas excel_eval = process_excel_def andthen_say andthen_lift fst_lift snd_lift

lemmas stage_eval = create_chart_def process_pdf_def run_ai_analysis_def
  generate_pdf_report_def show_download_def choose_font_def font_fallback_def
  andthen_say andthen_lift andthen_Inr andthen_Inl fst_lift snd_lift iloc_def say_def

lemmas fpdf_eval = new_fpdf_def add_font_def add_page_def set_font_def core_family_def
  unicode_font_def latin1_def draw_text_def pdf_cell_def multi_cell_def pdf_ln_def
  pdf_image_def pdf_output_def

lemma growing_series:
  "process_excel w growing_book =
     (Inr (zip (dedup_names [Str (lit ''Note'')] six_quarters)
            [Fin 900000, Fin 1000000, Fin 1100000, Fin 1150000, Fin 1200000, Fin 1250000]),
      excel_checkpoints)"
  by (simp add: excel_eval pandas_eval growing_book_def excel_checkpoints_def)

lemma zero_series:
  "process_excel w zero_book =
     (Inr (zip (dedup_names [Str (lit ''Note'')] six_quarters)
            [Fin 900000, Fin 0, Fin 1100000, Fin 1150000, Fin 1200000, Fin 1250000]),
      excel_checkpoints)"
  by (simp add: excel_eval pandas_eval zero_book_def excel_checkpoints_def)

lemma short_series:
  "process_excel w short_book =
     (Inr (zip (dedup_names [Str (lit ''Note'')] four_quarters)
            [Fin 900000, Fin 1000000, Fin 1100000, Fin 1150000]),
      excel_checkpoints)"
  by (simp add: excel_eval pandas_eval short_book_def excel_checkpoints_def)

lemma gap_series:
  "process_excel calm_world gap_book =
     (Inr (zip (dedup_names [Str (lit ''Note'')] six_quarters)
            [Fin 900000, NaN, Fin 1100000, Fin 1150000, Fin 1200000, Fin 1250000]),
      excel_checkpoints)"
  by (simp add: excel_eval pandas_eval gap_book_def excel_checkpoints_def calm_world_def)

section \<open>Metric derivation\<close>



lemma iloc_short: "length revenue < 5 \<Longrightarrow> iloc revenue (- 5) = Inl IndexError"
  by (simp add: iloc_def py_index_def)

lemma iloc_fifth_length: "iloc revenue (- 5) = Inr previous \<Longrightarrow> 5 \<le> length revenue"
  by (simp add: iloc_def py_index_def split: if_splits)

lemma run_ai_analysis_derived:
  "iloc revenue (- 1) = Inr latest \<Longrightarrow> iloc revenue (- 5) = Inr previous \<Longrightarrow>
   run_ai_analysis w revenue text client =
     (fst (generate_summary w text latest previous client),
      Step DeriveMetrics # Step GenerateNarrative
        # snd (generate_summary w text latest previous client))"
  by (simp add: run_ai_analysis_def andthen_say andthen_lift)

lemma growth_of_nan:
  "latest = NaN \<or> previous = NaN \<Longrightarrow> revenue_growth rnd latest previous = NaN"
  by (auto simp: revenue_growth_def fl_sub_def fl_div_def fl_mul_def)

lemma div_by_zero_not_finite: "is_zero y \<Longrightarrow> \<not> is_finite (fl_div rnd x y)"
  by (cases x; cases y) (auto simp: fl_div_def inf_sg_def zero_sg_def)

lemma mul_not_finite: "\<not> is_finite x \<Longrightarrow> \<not> is_finite (fl_mul rnd x (Fin 100))"
  by (cases x) (auto simp: fl_mul_def inf_sg_def zero_sg_def)

lemma growth_of_zero: "is_zero previous \<Longrightarrow> \<not> is_finite (revenue_growth rnd latest previous)"
  by (simp add: revenue_growth_def div_by_zero_not_finite mul_not_finite)

lemma format_not_finite:
  "\<not> is_finite g \<Longrightarrow> format_f grouping prec g \<in> set [''nan'', ''inf'', ''-inf'']"
  by (cases g) (auto simp: format_f_def)

section \<open>Missing and zero values in the series\<close>

text \<open>
  C9. When the latest value or the value five positions from the end of the revenue
  series is NaN, no error is raised by the selection, the growth computation or the
  prompt construction: the growth is NaN, it is written into the prompt as \<open>nan\<close>
  (as is the NaN revenue), the request is sent with that prompt, and the outcome of
  section 6 is the outcome of the service call.
\<close>

theorem nan_propagates:
  assumes "iloc revenue (- 1) = Inr latest" and "iloc revenue (- 5) = Inr previous"
    and "latest = NaN \<or> previous = NaN"
  shows "revenue_growth (float_rnd w) latest previous = NaN
     \<and> format_f False 2 (revenue_growth (float_rnd w) latest previous) = ''nan''
     \<and> (latest = NaN \<longrightarrow> format_f True 0 latest = ''nan'')
     \<and> (previous = NaN \<longrightarrow> format_f True 0 previous = ''nan'')
     \<and> requests (snd (run_ai_analysis w revenue text client)) =
          [\<lparr>req_model = ''gpt-4o'',
            req_messages = [(''user'', prompt_text latest previous NaN text)],
            req_temperature = 1 / 2\<rparr>]
     \<and> fst (run_ai_analysis w revenue text client) =
          (case chat_create w client
                  \<lparr>req_model = ''gpt-4o'',
                   req_messages = [(''user'', prompt_text latest previous NaN text)],
                   req_temperature = 1 / 2\<rparr> of
             Inl e \<Rightarrow> Inl e
           | Inr response \<Rightarrow> py_index (choices response) 0)"
proof -
  have g: "revenue_growth (float_rnd w) latest previous = NaN"
    using assms(3) by (rule growth_of_nan)
  have run: "run_ai_analysis w revenue text client =
     (fst (generate_summary w text latest previous client),
      Step DeriveMetrics # Step GenerateNarrative
        # snd (generate_summary w text latest previous client))"
    using assms(1,2) by (rule run_ai_analysis_derived)
  show ?thesis
    by (simp add: g run generate_summary_requests generate_summary_outcome format_f_def)
qed

theorem nan_propagates_witness:
  "iloc (revenue_of calm_world gap_book) (- 5) = Inr NaN
   \<and> requests (snd (run_ai_analysis calm_world (revenue_of calm_world gap_book)
                       (lit ''Annual report.'') ''sk-test'')) =
          [\<lparr>req_model = ''gpt-4o'',
            req_messages = [(''user'', prompt_text (Fin 1250000) NaN NaN (lit ''Annual report.''))],
            req_temperature = 1 / 2\<rparr>]
   \<and> fst (run_ai_analysis calm_world (revenue_of calm_world gap_book)
              (lit ''Annual report.'') ''sk-test'') = Inr (lit ''Revenue grew.'')"
proof -
  have last: "iloc (revenue_of calm_world gap_book) (- 1) = Inr (Fin 1250000)"
    by (simp add: revenue_of_def gap_series iloc_def py_index_def six_quarters_def)
  have fifth: "iloc (revenue_of calm_world gap_book) (- 5) = Inr NaN"
    by (simp add: revenue_of_def gap_series iloc_def py_index_def six_quarters_def)
  have "Fin 1250000 = NaN \<or> NaN = NaN" by simp
  from nan_propagates [OF last fifth this, of calm_world "lit ''Annual report.''" "''sk-test''"]
    fifth
  show ?thesis
    by (simp add: calm_world_def py_index_def)
qed

text \<open>
  C2, as stated, fails: with a revenue of exactly zero five positions from the end,
  the run of the sample workbook shows no exception and offers the report.
\<close>

theorem zero_previous_counterexample:
  "iloc (revenue_of calm_world zero_book) (- 5) = Inr (Fin 0)
   \<and> failures (generate_report calm_world ''sk-test'' (Some zero_book) (Some sample_pdf)) = []
   \<and> downloads (generate_report calm_world ''sk-test'' (Some zero_book) (Some sample_pdf))
       = [pdf_header]"
proof -
  have "iloc (revenue_of calm_world zero_book) (- 5) = Inr (Fin 0)"
    by (simp add: revenue_of_def zero_series iloc_def py_index_def six_quarters_def)
  moreover have "failures (generate_report calm_world ''sk-test'' (Some zero_book) (Some sample_pdf)) = []"
    by (simp add: generate_report_def pipeline_def zero_series excel_checkpoints_def calm_world_def
       stage_eval fpdf_eval generate_summary_unfold six_quarters_def lit_def py_index_def Let_def)
  moreover have "downloads (generate_report calm_world ''sk-test'' (Some zero_book) (Some sample_pdf))
       = [pdf_header]"
    by (simp add: generate_report_def pipeline_def zero_series excel_checkpoints_def calm_world_def
       stage_eval fpdf_eval generate_summary_unfold six_quarters_def lit_def py_index_def Let_def)
  ultimately show ?thesis by simp
qed

text \<open>
  C2, amended. When the value five positions from the end of the revenue series is
  exactly zero (of either sign), no division error is raised: the float64 division
  yields an infinity or NaN, the growth is not finite and is written into the prompt
  as \<open>inf\<close>, \<open>-inf\<close> or \<open>nan\<close>, the request is sent with that prompt, and the outcome
  of section 6 is the outcome of the service call.
\<close>

theorem zero_previous_no_error:
  assumes "iloc revenue (- 1) = Inr latest" and "iloc revenue (- 5) = Inr previous"
    and "is_zero previous"
  shows "\<not> is_finite (revenue_growth (float_rnd w) latest previous)
     \<and> format_f False 2 (revenue_growth (float_rnd w) latest previous)
           \<in> set [''nan'', ''inf'', ''-inf'']
     \<and> requests (snd (run_ai_analysis w revenue text client)) =
          [\<lparr>req_model = ''gpt-4o'',
            req_messages = [(''user'', prompt_text latest previous
                               (revenue_growth (float_rnd w) latest previous) text)],
            req_temperature = 1 / 2\<rparr>]
     \<and> fst (run_ai_analysis w revenue text client) =
          (case chat_create w client
                  \<lparr>req_model = ''gpt-4o'',
                   req_messages = [(''user'', prompt_text latest previous
                                      (revenue_growth (float_rnd w) latest previous) text)],
                   req_temperature = 1 / 2\<rparr> of
             Inl e \<Rightarrow> Inl e
           | Inr response \<Rightarrow> py_index (choices response) 0)"
proof -
  have g: "\<not> is_finite (revenue_growth (float_rnd w) latest previous)"
    using assms(3) by (rule growth_of_zero)
  have run: "run_ai_analysis w revenue text client =
     (fst (generate_summary w text latest previous client),
      Step DeriveMetrics # Step GenerateNarrative
        # snd (generate_summary w text latest previous client))"
    using assms(1,2) by (rule run_ai_analysis_derived)
  from g format_not_finite [OF g, of False 2] show ?thesis
    by (simp add: run generate_summary_requests generate_summary_outcome)
qed

theorem zero_previous_no_error_witness:
  "iloc (revenue_of calm_world zero_book) (- 5) = Inr (Fin 0)
   \<and> revenue_growth (float_rnd calm_world) (Fin 1250000) (Fin 0) = PInf
   \<and> requests (snd (run_ai_analysis calm_world (revenue_of calm_world zero_book)
                       (lit ''Annual report.'') ''sk-test'')) =
          [\<lparr>req_model = ''gpt-4o'',
            req_messages = [(''user'', prompt_text (Fin 1250000) (Fin 0) PInf (lit ''Annual report.''))],
            req_temperature = 1 / 2\<rparr>]
   \<and> fst (run_ai_analysis calm_world (revenue_of calm_world zero_book)
              (lit ''Annual report.'') ''sk-test'') = Inr (lit ''Revenue grew.'')"
proof -
  have last: "iloc (revenue_of calm_world zero_book) (- 1) = Inr (Fin 1250000)"
    by (simp add: revenue_of_def zero_series iloc_def py_index_def six_quarters_def)
  have fifth: "iloc (revenue_of calm_world zero_book) (- 5) = Inr (Fin 0)"
    by (simp add: revenue_of_def zero_series iloc_def py_index_def six_quarters_def)
  have g: "revenue_growth (float_rnd calm_world) (Fin 1250000) (Fin 0) = PInf"
    by (simp add: revenue_growth_def fl_sub_def fl_div_def fl_mul_def inf_sg_def calm_world_def)
  have "is_zero (Fin 0)" by simp
  from zero_previous_no_error [OF last fifth this, of calm_world "lit ''Annual report.''" "''sk-test''"]
    fifth g
  show ?thesis
    by (simp add: calm_world_def py_index_def)
qed

section \<open>The growth percentage\<close>









section \<open>Reading the trace of a run\<close>

lemma steps_append: "steps (xs @ ys) = steps xs @ steps ys"
  by (induction xs rule: steps.induct) simp_all

lemma downloads_append: "downloads (xs @ ys) = downloads xs @ downloads ys"
  by (induction xs rule: downloads.induct) simp_all

lemma requests_append: "requests (xs @ ys) = requests xs @ requests ys"
  by (induction xs rule: requests.induct) simp_all

lemma failures_append: "failures (xs @ ys) = failures xs @ failures ys"
  by (induction xs rule: failures.induct) simp_all

lemma fst_andthen:
  "fst (andthen m f) = (case fst m of Inl e \<Rightarrow> Inl e | Inr x \<Rightarrow> fst (f x))"
  by (cases m) (simp add: andthen_def split: sum.splits prod.splits)

lemma snd_andthen:
  "snd (andthen m f) = (case fst m of Inl e \<Rightarrow> snd m | Inr x \<Rightarrow> snd m @ snd (f x))"
  by (cases m) (simp add: andthen_def split: sum.splits prod.splits)

lemma fst_say: "fst (say e) = Inr ()"
  by (simp add: say_def)

lemma snd_say: "snd (say e) = [e]"
  by (simp add: say_def)

lemmas trace = fst_andthen snd_andthen fst_say snd_say fst_lift snd_lift
  steps_append downloads_append requests_append failures_append

lemma process_excel_trace:
  "steps (snd (process_excel w excel_file)) = [Normalize]"
  "downloads (snd (process_excel w excel_file)) = []"
  "requests (snd (process_excel w excel_file)) = []"
  "failures (snd (process_excel w excel_file)) = []"
  by (simp_all add: process_excel_def trace split: sum.splits)

lemma create_chart_trace:
  "steps (snd (create_chart w revenue_data)) = [RenderChart]"
  "downloads (snd (create_chart w revenue_data)) = []"
  "requests (snd (create_chart w revenue_data)) = []"
  "failures (snd (create_chart w revenue_data)) = []"
  by (simp_all add: create_chart_def trace split: sum.splits)

lemma process_pdf_trace:
  "steps (snd (process_pdf w pdf_file)) = [ExtractText]"
  "downloads (snd (process_pdf w pdf_file)) = []"
  "requests (snd (process_pdf w pdf_file)) = []"
  "failures (snd (process_pdf w pdf_file)) = []"
  by (simp_all add: process_pdf_def trace Let_def split: sum.splits)

lemma generate_summary_trace:
  "steps (snd (generate_summary w text latest previous client)) = []"
  "downloads (snd (generate_summary w text latest previous client)) = []"
  "failures (snd (generate_summary w text latest previous client)) = []"
  by (simp_all add: generate_summary_unfold Let_def split: sum.splits)

lemma run_ai_analysis_trace:
  "downloads (snd (run_ai_analysis w revenue_data text client)) = []"
  "failures (snd (run_ai_analysis w revenue_data text client)) = []"
  "steps (snd (run_ai_analysis w revenue_data text client)) =
     (if 5 \<le> length revenue_data then [DeriveMetrics, GenerateNarrative] else [DeriveMetrics])"
  "length revenue_data < 5 \<Longrightarrow> requests (snd (run_ai_analysis w revenue_data text client)) = []"
  "length revenue_data < 5 \<Longrightarrow> fst (run_ai_analysis w revenue_data text client) = Inl IndexError"
  by (simp_all add: run_ai_analysis_def trace generate_summary_trace iloc_def py_index_def
      split: sum.splits)

lemma choose_font_trace:
  "steps (snd (choose_font w pdf)) = []"
  "downloads (snd (choose_font w pdf)) = []"
  "failures (snd (choose_font w pdf)) = []"
  by (simp_all add: choose_font_def font_fallback_def split: sum.splits)

lemma generate_pdf_report_trace:
  "steps (snd (generate_pdf_report w summary img_buffer)) = [AssembleReport]"
  "downloads (snd (generate_pdf_report w summary img_buffer)) = []"
  "failures (snd (generate_pdf_report w summary img_buffer)) = []"
  by (simp_all add: generate_pdf_report_def trace choose_font_trace Let_def
      split: sum.splits prod.splits)

lemma show_download_run:
  "show_download w pdf =
     (Inr (),
      [Step Ready, St_success ''--- Report finished successfully! ---'', St_balloons,
       St_download_button ''Download SICOM_Report.pdf'' (pdf_output w pdf)
         ''SICOM_Report.pdf'' ''application/pdf''])"
  by (simp add: show_download_def andthen_say andthen_Inr say_def)

section \<open>The order of the states\<close>

lemma generate_report_present:
  "generate_report w api_key (Some xlsx) (Some pdf) =
     Step Intake # St_spinner ''Generating report... This may take a moment.''
       # snd (pipeline w api_key xlsx pdf)
       @ (case fst (pipeline w api_key xlsx pdf) of
            Inl e \<Rightarrow> [St_error_occurred e, St_exception e]
          | Inr u \<Rightarrow> [])"
  by (cases "pipeline w api_key xlsx pdf") (simp add: generate_report_def split: sum.splits)

lemma pipeline_failures: "failures (snd (pipeline w api_key xlsx pdf)) = []"
  by (simp add: pipeline_def trace process_excel_trace create_chart_trace process_pdf_trace
      run_ai_analysis_trace generate_pdf_report_trace show_download_run split: sum.splits)

lemma pipeline_success:
  assumes "downloads (snd (pipeline w api_key xlsx pdf)) \<noteq> []"
  shows "steps (snd (pipeline w api_key xlsx pdf)) =
     [Normalize, RenderChart, ExtractText, DeriveMetrics, GenerateNarrative, AssembleReport, Ready]"
  using assms
  by (auto simp: pipeline_def trace process_excel_trace create_chart_trace process_pdf_trace
      run_ai_analysis_trace generate_pdf_report_trace show_download_run
      split: sum.splits if_splits)

text \<open>
  C4, amended. Every run that ends with the report offered for download has gone
  through the states in the order Intake, Normalize, RenderChart, ExtractText,
  DeriveMetrics, GenerateNarrative, AssembleReport, Ready: the chart is rendered and
  the text extracted before the latest and previous revenue are selected.
\<close>

theorem success_order:
  "downloads (generate_report w api_key excel_file pdf_file) \<noteq> [] \<Longrightarrow>
   steps (generate_report w api_key excel_file pdf_file) =
     [Intake, Normalize, RenderChart, ExtractText, DeriveMetrics, GenerateNarrative,
      AssembleReport, Ready]"
proof -
  assume ready: "downloads (generate_report w api_key excel_file pdf_file) \<noteq> []"
  then obtain xlsx pdf where files: "excel_file = Some xlsx" "pdf_file = Some pdf"
    by (cases excel_file; cases pdf_file) (simp_all add: generate_report_def)
  from ready have "downloads (snd (pipeline w api_key xlsx pdf)) \<noteq> []"
    by (simp add: files generate_report_present downloads_append split: sum.splits)
  then have "steps (snd (pipeline w api_key xlsx pdf)) =
     [Normalize, RenderChart, ExtractText, DeriveMetrics, GenerateNarrative, AssembleReport, Ready]"
    by (rule pipeline_success)
  then show ?thesis
    by (simp add: files generate_report_present steps_append split: sum.splits)
qed

lemmas run_eval = generate_report_def pipeline_def excel_checkpoints_def
  stage_eval fpdf_eval generate_summary_unfold six_quarters_def four_quarters_def lit_def
  py_index_def Let_def

lemma growing_run:
  "steps (generate_report calm_world ''sk-test'' (Some growing_book) (Some sample_pdf)) =
     [Intake, Normalize, RenderChart, ExtractText, DeriveMetrics, GenerateNarrative,
      AssembleReport, Ready]"
  "downloads (generate_report calm_world ''sk-test'' (Some growing_book) (Some sample_pdf))
     = [pdf_header]"
  by (simp_all add: growing_series calm_world_def run_eval)

lemma short_run:
  "steps (generate_report calm_world ''sk-test'' (Some short_book) (Some sample_pdf)) =
     [Intake, Normalize, RenderChart, ExtractText, DeriveMetrics]"
  "failures (generate_report calm_world ''sk-test'' (Some short_book) (Some sample_pdf))
     = [IndexError]"
  by (simp_all add: short_series calm_world_def run_eval)

lemma curly_run:
  "failures (generate_report curly_world ''sk-test'' (Some growing_book) (Some sample_pdf))
     = [FPDFUnicodeEncodingException]"
  "downloads (generate_report curly_world ''sk-test'' (Some growing_book) (Some sample_pdf)) = []"
  "shown (generate_report curly_world ''sk-test'' (Some growing_book) (Some sample_pdf))
     = [St_spinner ''Generating report... This may take a moment.'',
        St_write ''Checkpoint 4: OpenAI client initialized successfully.'',
        St_write ''Checkpoint 5: Loading and cleaning Excel file.'',
        St_write ''Checkpoint 5.2: Excel sheet cleaned successfully.'',
        St_write ''Checkpoint 5.5: Revenue data prepared.'',
        St_write ''Checkpoint 6: Generating chart.'',
        St_write ''Checkpoint 6.1: Chart saved to memory.'',
        St_write ''Checkpoint 7: Extracting text from PDF.'',
        St_write ''Checkpoint 7.1: PDF text extracted.'',
        St_write ''Checkpoint A: Entered generate_summary function.'',
        St_write ''Checkpoint B: Connecting to OpenAI API...'',
        St_write ''Checkpoint C: Received response from OpenAI API.'',
        St_write ''Checkpoint 8: Generating PDF report...'',
        St_error font_warning,
        St_error_occurred FPDFUnicodeEncodingException,
        St_exception FPDFUnicodeEncodingException]"
  by (simp_all add: growing_series curly_world_def fontless_world_def calm_world_def run_eval)

text \<open>
  C4, as stated, fails: the run of the sample workbook succeeds, and chart rendering
  and text extraction precede metric derivation.
\<close>

theorem order_counterexample:
  "downloads (generate_report calm_world ''sk-test'' (Some growing_book) (Some sample_pdf))
     = [pdf_header]
   \<and> steps (generate_report calm_world ''sk-test'' (Some growing_book) (Some sample_pdf))
     = [Intake, Normalize, RenderChart, ExtractText, DeriveMetrics, GenerateNarrative,
        AssembleReport, Ready]
   \<and> steps (generate_report calm_world ''sk-test'' (Some growing_book) (Some sample_pdf))
     \<noteq> [Intake, Normalize, DeriveMetrics, RenderChart, ExtractText, GenerateNarrative,
        AssembleReport, Ready]"
  by (simp add: growing_run)

theorem success_order_witness:
  "downloads (generate_report fontless_world ''sk-test'' (Some growing_book) (Some sample_pdf)) \<noteq> []
   \<and> steps (generate_report fontless_world ''sk-test'' (Some growing_book) (Some sample_pdf)) =
     [Intake, Normalize, RenderChart, ExtractText, DeriveMetrics, GenerateNarrative,
      AssembleReport, Ready]"
proof -
  have ready: "downloads (generate_report fontless_world ''sk-test'' (Some growing_book) (Some sample_pdf))
                 \<noteq> []"
    by (simp add: growing_series fontless_world_def calm_world_def run_eval)
  from success_order [OF ready] ready show ?thesis by simp
qed

section \<open>A series of fewer than five periods\<close>

lemma create_chart_result:
  "fst (create_chart w revenue_data) = savefig w revenue_data"
  by (simp add: create_chart_def trace split: sum.splits)

lemma process_pdf_result:
  "fst (process_pdf w pdf_file) =
     (case fitz_open w pdf_file of
        Inl e \<Rightarrow> Inl e
      | Inr doc \<Rightarrow> Inr (foldl (\<lambda>text_content page_text. text_content @ page_text) [] doc))"
  by (simp add: process_pdf_def trace Let_def split: sum.splits)

text \<open>
  C3, as stated, fails: on a workbook with four periods the chart is rendered and the
  text extracted before the run fails with \<open>IndexError\<close>.
\<close>

theorem short_counterexample:
  "length (revenue_of calm_world short_book) = 4
   \<and> steps (generate_report calm_world ''sk-test'' (Some short_book) (Some sample_pdf)) =
       [Intake, Normalize, RenderChart, ExtractText, DeriveMetrics]
   \<and> failures (generate_report calm_world ''sk-test'' (Some short_book) (Some sample_pdf))
       = [IndexError]"
  by (simp add: short_run revenue_of_def short_series four_quarters_def)

text \<open>
  C3, amended. When the revenue series prepared from the spreadsheet has fewer than
  five periods, no request is sent and no report is offered; and when the client,
  the chart rendering and the text extraction succeed, the run fails with
  \<open>IndexError\<close> at the metric derivation, which comes after chart rendering and text
  extraction.
\<close>

theorem short_series_fails:
  assumes "fst (process_excel w xlsx) = Inr revenue_data" and "length revenue_data < 5"
  shows "downloads (generate_report w api_key (Some xlsx) (Some pdf)) = []
     \<and> requests (generate_report w api_key (Some xlsx) (Some pdf)) = []
     \<and> (new_client w api_key = Inr client \<and> savefig w revenue_data = Inr img
          \<and> fitz_open w pdf = Inr doc \<longrightarrow>
         failures (generate_report w api_key (Some xlsx) (Some pdf)) = [IndexError]
         \<and> steps (generate_report w api_key (Some xlsx) (Some pdf)) =
             [Intake, Normalize, RenderChart, ExtractText, DeriveMetrics])"
proof (intro conjI impI)
  show "downloads (generate_report w api_key (Some xlsx) (Some pdf)) = []"
    using assms
    by (simp add: generate_report_present pipeline_def trace process_excel_trace
        create_chart_trace process_pdf_trace run_ai_analysis_trace split: sum.splits)
  show "requests (generate_report w api_key (Some xlsx) (Some pdf)) = []"
    using assms
    by (simp add: generate_report_present pipeline_def trace process_excel_trace
        create_chart_trace process_pdf_trace run_ai_analysis_trace split: sum.splits)
next
  assume ok: "new_client w api_key = Inr client \<and> savefig w revenue_data = Inr img
          \<and> fitz_open w pdf = Inr doc"
  show "failures (generate_report w api_key (Some xlsx) (Some pdf)) = [IndexError]"
    using assms ok
    by (simp add: generate_report_present pipeline_def trace process_excel_trace
        create_chart_trace process_pdf_trace run_ai_analysis_trace create_chart_result
        process_pdf_result)
  show "steps (generate_report w api_key (Some xlsx) (Some pdf)) =
             [Intake, Normalize, RenderChart, ExtractText, DeriveMetrics]"
    using assms ok
    by (simp add: generate_report_present pipeline_def trace process_excel_trace
        create_chart_trace process_pdf_trace run_ai_analysis_trace create_chart_result
        process_pdf_result)
qed

theorem short_series_fails_witness:
  "fst (process_excel calm_world short_book)
     = Inr (zip (dedup_names [Str (lit ''Note'')] four_quarters)
            [Fin 900000, Fin 1000000, Fin 1100000, Fin 1150000])
   \<and> downloads (generate_report calm_world ''sk-test'' (Some short_book) (Some sample_pdf)) = []
   \<and> requests (generate_report calm_world ''sk-test'' (Some short_book) (Some sample_pdf)) = []
   \<and> failures (generate_report calm_world ''sk-test'' (Some short_book) (Some sample_pdf))
       = [IndexError]"
proof -
  have series: "fst (process_excel calm_world short_book)
     = Inr (zip (dedup_names [Str (lit ''Note'')] four_quarters)
            [Fin 900000, Fin 1000000, Fin 1100000, Fin 1150000])"
    by (simp add: short_series)
  have short: "length (zip (dedup_names [Str (lit ''Note'')] four_quarters)
            [Fin 900000, Fin 1000000, Fin 1100000, Fin 1150000]) < 5"
    by (simp add: four_quarters_def)
  have ok: "new_client calm_world ''sk-test'' = Inr ''sk-test''
     \<and> savefig calm_world (zip (dedup_names [Str (lit ''Note'')] four_quarters)
            [Fin 900000, Fin 1000000, Fin 1100000, Fin 1150000]) = Inr sample_png
     \<and> fitz_open calm_world sample_pdf = Inr [lit ''Annual report. '', lit ''Outlook stable.'']"
    by (simp add: calm_world_def)
  from short_series_fails [OF series short, of "''sk-test''" sample_pdf "''sk-test''" sample_png
      "[lit ''Annual report. '', lit ''Outlook stable.'']"] ok series
  show ?thesis by simp
qed

section \<open>The report without the font files\<close>

lemma choose_font_fallback:
  assumes "\<not> file_exists w ''DejaVuSans.ttf'' \<or> \<not> file_exists w ''DejaVuSans-Bold.ttf''"
  shows "\<exists>pdf0. choose_font w new_fpdf = (Inr (pdf0, ''Arial''), [St_error font_warning])
           \<and> page_count pdf0 = 0 \<and> drawn pdf0 = []
           \<and> (''Arial'', ''B'') \<notin> set (added_fonts pdf0)
           \<and> (''Arial'', []) \<notin> set (added_fonts pdf0)"
  using assms
  by (auto simp: choose_font_def font_fallback_def add_font_def new_fpdf_def)

lemma title_latin1: "latin1 (lit ''SICOM Financial Analysis'')"
  by (simp add: latin1_def lit_def)

text \<open>
  C8, amended. When a font file is missing, the \<open>FileNotFoundError\<close> is caught, the
  warning is shown and the family is \<open>Arial\<close>. Then a narrative of Latin-1 characters
  gives a document drawn in Arial whose bytes are not empty and are what the download
  button offers; a narrative with a character outside Latin-1 makes \<open>multi_cell\<close> raise
  \<open>FPDFUnicodeEncodingException\<close> after the warning, and no document is produced.
\<close>

theorem font_fallback_report:
  assumes "\<not> file_exists w ''DejaVuSans.ttf'' \<or> \<not> file_exists w ''DejaVuSans-Bold.ttf''"
  shows "(\<exists>pdf0. choose_font w new_fpdf = (Inr (pdf0, ''Arial''), [St_error font_warning]))
     \<and> (latin1 summary \<longrightarrow>
          (\<exists>pdf. generate_pdf_report w summary img_buffer =
                   (Inr pdf,
                    [Step AssembleReport, St_write ''Checkpoint 8: Generating PDF report...'',
                     St_error font_warning, St_write ''Checkpoint 9: PDF report finished.''])
                \<and> current_font pdf = Some (''Arial'', [], 11)
                \<and> drawn pdf = [Cell_Text (lit ''SICOM Financial Analysis''),
                                Multi_Cell_Text summary, Line_Break 10, Image img_buffer]
                \<and> downloads (snd (show_download w pdf)) = [pdf_output w pdf]
                \<and> pdf_output w pdf \<noteq> []))
     \<and> (\<not> latin1 summary \<longrightarrow>
          generate_pdf_report w summary img_buffer =
            (Inl FPDFUnicodeEncodingException,
             [Step AssembleReport, St_write ''Checkpoint 8: Generating PDF report...'',
              St_error font_warning]))"
proof -
  from choose_font_fallback [OF assms] obtain pdf0 where
    chosen: "choose_font w new_fpdf = (Inr (pdf0, ''Arial''), [St_error font_warning])"
    and fresh: "page_count pdf0 = 0" "drawn pdf0 = []"
      "(''Arial'', ''B'') \<notin> set (added_fonts pdf0)" "(''Arial'', []) \<notin> set (added_fonts pdf0)"
    by blast
  define pdf1 where "pdf1 = (add_page pdf0)\<lparr>current_font := Some (''Arial'', ''B'', 16)\<rparr>"
  define pdf2 where "pdf2 = pdf1\<lparr>drawn := [Cell_Text (lit ''SICOM Financial Analysis'')]\<rparr>"
  define pdf3 where "pdf3 = pdf2\<lparr>current_font := Some (''Arial'', [], 11)\<rparr>"
  have s1: "set_font (add_page pdf0) ''Arial'' ''B'' 16 = Inr pdf1"
    by (simp add: set_font_def core_family_def pdf1_def)
  have s2: "pdf_cell pdf1 (lit ''SICOM Financial Analysis'') = Inr pdf2"
    using fresh title_latin1
    by (simp add: pdf_cell_def draw_text_def pdf1_def pdf2_def add_page_def unicode_font_def)
  have s3: "set_font pdf2 ''Arial'' [] 11 = Inr pdf3"
    by (simp add: set_font_def core_family_def pdf3_def)
  have s4: "multi_cell pdf3 summary =
      (if latin1 summary then Inr (pdf3\<lparr>drawn := drawn pdf3 @ [Multi_Cell_Text summary]\<rparr>)
       else Inl FPDFUnicodeEncodingException)"
    using fresh
    by (simp add: multi_cell_def draw_text_def pdf3_def pdf2_def pdf1_def add_page_def
        unicode_font_def)
  have report: "generate_pdf_report w summary img_buffer =
      (if latin1 summary
       then (Inr (pdf_image (pdf_ln (pdf3\<lparr>drawn := drawn pdf3 @ [Multi_Cell_Text summary]\<rparr>) 10)
                    img_buffer),
             [Step AssembleReport, St_write ''Checkpoint 8: Generating PDF report...'',
              St_error font_warning, St_write ''Checkpoint 9: PDF report finished.''])
       else (Inl FPDFUnicodeEncodingException,
             [Step AssembleReport, St_write ''Checkpoint 8: Generating PDF report...'',
              St_error font_warning]))"
    by (simp add: generate_pdf_report_def andthen_say andthen_lift andthen_Inr fst_lift snd_lift
        chosen s1 s2 s3 s4 Let_def)
  have header: "pdf_output w p \<noteq> []" for p
    by (simp add: pdf_output_def pdf_header_def)
  show ?thesis
  proof (intro conjI impI)
    show "\<exists>pdf0. choose_font w new_fpdf = (Inr (pdf0, ''Arial''), [St_error font_warning])"
      using chosen by blast
  next
    assume "latin1 summary"
    then show "\<exists>pdf. generate_pdf_report w summary img_buffer =
                   (Inr pdf,
                    [Step AssembleReport, St_write ''Checkpoint 8: Generating PDF report...'',
                     St_error font_warning, St_write ''Checkpoint 9: PDF report finished.''])
                \<and> current_font pdf = Some (''Arial'', [], 11)
                \<and> drawn pdf = [Cell_Text (lit ''SICOM Financial Analysis''),
                                Multi_Cell_Text summary, Line_Break 10, Image img_buffer]
                \<and> downloads (snd (show_download w pdf)) = [pdf_output w pdf]
                \<and> pdf_output w pdf \<noteq> []"
      by (simp add: report header show_download_run pdf_image_def pdf_ln_def pdf3_def pdf2_def)
  next
    assume "\<not> latin1 summary"
    then show "generate_pdf_report w summary img_buffer =
            (Inl FPDFUnicodeEncodingException,
             [Step AssembleReport, St_write ''Checkpoint 8: Generating PDF report...'',
              St_error font_warning])"
      by (simp add: report)
  qed
qed

theorem font_fallback_witness:
  "snd (generate_pdf_report fontless_world (lit ''Revenue grew.'') sample_png) =
     [Step AssembleReport, St_write ''Checkpoint 8: Generating PDF report...'',
      St_error font_warning, St_write ''Checkpoint 9: PDF report finished.'']
   \<and> generate_pdf_report fontless_world (lit ''Revenue'' @ [8217] @ lit ''s up.'') sample_png =
       (Inl FPDFUnicodeEncodingException,
        [Step AssembleReport, St_write ''Checkpoint 8: Generating PDF report...'',
         St_error font_warning])"
proof -
  have absent: "\<not> file_exists fontless_world ''DejaVuSans.ttf''
                  \<or> \<not> file_exists fontless_world ''DejaVuSans-Bold.ttf''"
    by (simp add: fontless_world_def)
  have plain: "latin1 (lit ''Revenue grew.'')"
    by (simp add: latin1_def lit_def)
  have curly: "\<not> latin1 (lit ''Revenue'' @ [8217] @ lit ''s up.'')"
    by (simp add: latin1_def lit_def)
  from font_fallback_report [OF absent, of "lit ''Revenue grew.''" sample_png] plain
  have a: "snd (generate_pdf_report fontless_world (lit ''Revenue grew.'') sample_png) =
     [Step AssembleReport, St_write ''Checkpoint 8: Generating PDF report...'',
      St_error font_warning, St_write ''Checkpoint 9: PDF report finished.'']"
    by auto
  from font_fallback_report [OF absent, of "lit ''Revenue'' @ [8217] @ lit ''s up.''" sample_png]
    curly
  have b: "generate_pdf_report fontless_world (lit ''Revenue'' @ [8217] @ lit ''s up.'') sample_png =
       (Inl FPDFUnicodeEncodingException,
        [Step AssembleReport, St_write ''Checkpoint 8: Generating PDF report...'',
         St_error font_warning])"
    by blast
  from a b show ?thesis by simp
qed

text \<open>
  C8, as stated, fails: without the font files and with a typographic apostrophe in
  the narrative, the run ends in an exception and offers no download.
\<close>

theorem font_fallback_counterexample:
  "\<not> file_exists curly_world ''DejaVuSans.ttf''
   \<and> \<not> file_exists curly_world ''DejaVuSans-Bold.ttf''
   \<and> failures (generate_report curly_world ''sk-test'' (Some growing_book) (Some sample_pdf))
       = [FPDFUnicodeEncodingException]
   \<and> downloads (generate_report curly_world ''sk-test'' (Some growing_book) (Some sample_pdf)) = []"
  by (simp add: curly_run) (simp add: curly_world_def fontless_world_def)

end
